theory Spec2Isabelle
  imports Main "HOL-Library.AList"
begin

section \<open>JavaScript values\<close>

text \<open>
  Strings are lists of 8-bit characters: the development covers JavaScript strings whose
  code units lie below 256. A number is \<open>NaN\<close>, an infinity, or a decimal \<open>Dec m k\<close>
  that stands for the double nearest to \<open>m / 10 ^ k\<close>; the literal \<open>0.3\<close> is \<open>Dec 3 1\<close> and
  \<open>25\<close> is \<open>Dec 25 0\<close>.
\<close>

datatype jsnum = NaN | PosInfinity | NegInfinity | Dec int nat

datatype jsval =
    JUndefined
  | JNull
  | JBool bool
  | JNum jsnum
  | JStr string
  | JArr "jsval list"
  | JObj "(string \<times> jsval) list"

fun typeof :: "jsval \<Rightarrow> string" where
  "typeof JUndefined = ''undefined''"
| "typeof JNull = ''object''"
| "typeof (JBool _) = ''boolean''"
| "typeof (JNum _) = ''number''"
| "typeof (JStr _) = ''string''"
| "typeof (JArr _) = ''object''"
| "typeof (JObj _) = ''object''"

text \<open>Truthiness of a number: everything but zero and \<open>NaN\<close>.\<close>

fun num_truthy :: "jsnum \<Rightarrow> bool" where
  "num_truthy NaN = False"
| "num_truthy (Dec m k) = (m \<noteq> 0)"
| "num_truthy _ = True"

subsection \<open>String helpers of the runtime\<close>

definition startsWith :: "string \<Rightarrow> string \<Rightarrow> bool" where
  "startsWith s p = (take (length p) s = p)"

text \<open>\<open>String.prototype.includes\<close>: the needle occurs as a contiguous run.\<close>

fun includes_str :: "string \<Rightarrow> string \<Rightarrow> bool" where
  "includes_str [] needle = (needle = [])"
| "includes_str (c # cs) needle = (startsWith (c # cs) needle \<or> includes_str cs needle)"

text \<open>
  \<open>toLowerCase\<close> on code units below 256: the ASCII capitals and the Latin-1 capitals
  (192 to 222, the multiplication sign 215 apart) move up by 32.
\<close>

definition lower_char :: "char \<Rightarrow> char" where
  "lower_char c =
     (let n = (of_char c :: nat)
      in if (65 \<le> n \<and> n \<le> 90) \<or> (192 \<le> n \<and> n \<le> 222 \<and> n \<noteq> 215)
         then char_of (n + 32) else c)"

definition toLowerCase :: "string \<Rightarrow> string" where
  "toLowerCase s = map lower_char s"

text \<open>
  White space and line terminators that \<open>trim\<close> and the string-to-number conversion
  strip: tab, line feed, vertical tab, form feed, carriage return, space and the
  no-break space.
\<close>

definition is_js_space :: "char \<Rightarrow> bool" where
  "is_js_space c = ((of_char c :: nat) \<in> {9, 10, 11, 12, 13, 32, 160})"

definition trim :: "string \<Rightarrow> string" where
  "trim s = rev (dropWhile is_js_space (rev (dropWhile is_js_space s)))"

text \<open>\<open>Array.prototype.join\<close> on strings.\<close>

fun join :: "string \<Rightarrow> string list \<Rightarrow> string" where
  "join sep [] = []"
| "join sep [x] = x"
| "join sep (x # y # ys) = x @ sep @ join sep (y # ys)"

text \<open>
  \<open>[...new Set(xs)]\<close>: a set keeps its elements in insertion order, so the first
  occurrence of every element survives.
\<close>

definition set_add :: "'a \<Rightarrow> 'a list \<Rightarrow> 'a list" where
  "set_add x seen = (if x \<in> set seen then seen else seen @ [x])"

definition new_Set :: "'a list \<Rightarrow> 'a list" where
  "new_Set xs = fold set_add xs []"

section \<open>The canonical filter schema (types/search.ts)\<close>

datatype care_phase = immediate_crisis | acute_support | recovery_support | maintenance

datatype gender = male | female

datatype age_group = child | teen | adult | senior

fun care_phase_code :: "care_phase \<Rightarrow> string" where
  "care_phase_code immediate_crisis = ''immediate_crisis''"
| "care_phase_code acute_support = ''acute_support''"
| "care_phase_code recovery_support = ''recovery_support''"
| "care_phase_code maintenance = ''maintenance''"

fun gender_code :: "gender \<Rightarrow> string" where
  "gender_code male = ''male''"
| "gender_code female = ''female''"

fun age_group_code :: "age_group \<Rightarrow> string" where
  "age_group_code child = ''child''"
| "age_group_code teen = ''teen''"
| "age_group_code adult = ''adult''"
| "age_group_code senior = ''senior''"

text \<open>
  An element of \<open>service_types\<close>. The interface declares strings; the validator can also
  store what a property lookup in a plain object literal inherits from
  \<open>Object.prototype\<close> (a function, or the prototype itself for \<open>__proto__\<close>), so such a
  value is an element kind of its own, named by the inherited key.
\<close>

datatype svc = Code string | Inherited string

text \<open>
  The transform checks the run-time type of \<open>lat\<close> and \<open>lon\<close>, so the two are kept as
  untyped values. Every other field has its declared type; an absent field is \<open>None\<close>.
  Fields of the interface that none of the functions below reads or writes are left out.
\<close>

record coordinate =
  lat :: jsval
  lon :: jsval

record search_location =
  address :: string
  coordinates :: "coordinate option"

record canonical_filters =
  "keywords" :: "string option"
  service_types :: "svc list option"
  care_phase :: "care_phase option"
  location :: "search_location option"
  max_distance_km :: "jsnum option"
  insurance :: "string list option"
  languages :: "string list option"
  age_groups :: "age_group list option"
  gender_specific :: "gender option"
  has_crisis_services :: "bool option"
  walk_ins_accepted :: "bool option"
  referral_required :: "bool option"
  lgbtq_affirming :: "bool option"
  wheelchair_accessible :: "bool option"
  telehealth_available :: "bool option"
  urgentAccessOnly :: "bool option"
  acceptingNewPatients :: "bool option"
  verified_only :: "bool option"
  min_rcs :: "jsnum option"
  limit :: "jsnum option"
  offset :: "jsnum option"

text \<open>The object literal \<open>{}\<close>: every field absent.\<close>

definition no_filters :: canonical_filters where
  "no_filters =
     \<lparr>keywords = None, service_types = None, care_phase = None, location = None,
      max_distance_km = None, insurance = None, languages = None, age_groups = None,
      gender_specific = None, has_crisis_services = None, walk_ins_accepted = None,
      referral_required = None, lgbtq_affirming = None, wheelchair_accessible = None,
      telehealth_available = None, urgentAccessOnly = None, acceptingNewPatients = None,
      verified_only = None, min_rcs = None, limit = None, offset = None\<rparr>"

record metadata =
  provider :: string
  model :: string
  tokens_input :: nat
  tokens_output :: nat

record extraction_response =
  originalQuery :: string
  filters :: canonical_filters
  explanation :: string
  confidence :: jsnum
  metadata :: metadata

section \<open>The filter validator (app/api/llm/extract-filters/route.ts)\<close>

definition VALID_SERVICE_TYPES :: "string list" where
  "VALID_SERVICE_TYPES =
     [''crisis_line'', ''crisis_text'', ''crisis_chat'', ''crisis_mobile'',
      ''crisis_walk_in'', ''crisis_stabilization'', ''suicide_prevention'',
      ''inpatient_psychiatric'', ''inpatient_dual_diagnosis'',
      ''residential_long_term'', ''residential_short_term'', ''partial_hospitalization'',
      ''outpatient_therapy'', ''intensive_outpatient'', ''medication_management'',
      ''telehealth_therapy'', ''case_management'', ''peer_support'',
      ''detox'', ''detox_social'', ''sud_inpatient'', ''sud_outpatient'',
      ''mat'', ''recovery_support'', ''harm_reduction'',
      ''support_group_general'', ''support_group_aa'', ''support_group_na'',
      ''support_group_smart'', ''support_group_family'', ''support_group_grief'',
      ''housing'', ''food'', ''transportation'', ''legal'', ''employment'',
      ''healthcare'', ''education'', ''financial'']"

definition SERVICE_TYPE_ALIASES :: "(string \<times> string) list" where
  "SERVICE_TYPE_ALIASES =
     [(''crisis_hotline'', ''crisis_line''),
      (''hotline'', ''crisis_line''),
      (''emergency_services'', ''crisis_line''),
      (''emergency'', ''crisis_line''),
      (''988'', ''crisis_line''),
      (''suicide_hotline'', ''suicide_prevention''),
      (''mental_health'', ''outpatient_therapy''),
      (''therapy'', ''outpatient_therapy''),
      (''counseling'', ''outpatient_therapy''),
      (''inpatient'', ''inpatient_psychiatric''),
      (''residential'', ''residential_short_term''),
      (''rehab'', ''sud_inpatient''),
      (''detoxification'', ''detox'')]"

text \<open>
  \<open>SERVICE_TYPE_ALIASES\<close> is a plain object literal, so \<open>SERVICE_TYPE_ALIASES[type]\<close>
  also finds the members of \<open>Object.prototype\<close>. These are its property names.
\<close>

definition Object_prototype_keys :: "string list" where
  "Object_prototype_keys =
     [''constructor'', ''__defineGetter__'', ''__defineSetter__'', ''hasOwnProperty'',
      ''__lookupGetter__'', ''__lookupSetter__'', ''isPrototypeOf'',
      ''propertyIsEnumerable'', ''toString'', ''valueOf'', ''__proto__'',
      ''toLocaleString'']"

text \<open>
  The property key a value turns into when it indexes an object: a string is its own
  key; an inherited function prints as its source text, the prototype object as
  \<open>[object Object]\<close>.
\<close>

fun property_key :: "svc \<Rightarrow> string" where
  "property_key (Code s) = s"
| "property_key (Inherited k) =
     (if k = ''__proto__'' then ''[object Object]''
      else ''function '' @ (if k = ''constructor'' then ''Object'' else k)
           @ ''() { [native code] }'')"

text \<open>\<open>VALID_SERVICE_TYPES.has(type)\<close>: only a string can be a member.\<close>

fun valid_has :: "svc \<Rightarrow> bool" where
  "valid_has (Code s) = (s \<in> set VALID_SERVICE_TYPES)"
| "valid_has (Inherited _) = False"

text \<open>
  \<open>SERVICE_TYPE_ALIASES[type]\<close>: an own property first, then the prototype; \<open>None\<close> is
  \<open>undefined\<close>. Every value it can return is truthy (the own values are non-empty
  strings).
\<close>

definition alias_get :: "svc \<Rightarrow> svc option" where
  "alias_get t =
     (case map_of SERVICE_TYPE_ALIASES (property_key t) of
        Some c \<Rightarrow> Some (Code c)
      | None \<Rightarrow>
          if property_key t \<in> set Object_prototype_keys
          then Some (Inherited (property_key t)) else None)"

text \<open>
  One round of the \<open>forEach\<close> callback, on the pair \<open>(mappedTypes, invalidTypes)\<close>.
\<close>

definition sort_type :: "svc \<Rightarrow> svc list \<times> svc list \<Rightarrow> svc list \<times> svc list" where
  "sort_type t acc =
     (case acc of (mappedTypes, invalidTypes) \<Rightarrow>
        if valid_has t then (mappedTypes @ [t], invalidTypes)
        else (case alias_get t of
                Some mapped \<Rightarrow> (mappedTypes @ [mapped], invalidTypes)
              | None \<Rightarrow> (mappedTypes, invalidTypes @ [t])))"

definition validateExtractedFilters ::
    "extraction_response \<Rightarrow> string \<Rightarrow> extraction_response" where
  "validateExtractedFilters response query =
     (case service_types (filters response) of
        None \<Rightarrow> response
      | Some types \<Rightarrow>
          (let mappedTypes = fst (fold sort_type types ([], []));
               unique = new_Set mappedTypes;
               f1 = (filters response)\<lparr>service_types := Some unique\<rparr>;
               f2 = (if length unique = 0 \<and> query \<noteq> []
                     then f1\<lparr>keywords := Some query\<rparr> else f1)
           in response\<lparr>filters := f2\<rparr>))"

text \<open>
  What the loop does with one element: an element of the vocabulary is kept, another
  one is replaced by what the alias lookup finds, if anything.
\<close>

definition corrected :: "svc \<Rightarrow> svc option" where
  "corrected t = (if valid_has t then Some t else alias_get t)"

section \<open>The keyword fallback (createBasicFilters)\<close>

definition createBasicFilters :: "string \<Rightarrow> extraction_response" where
  "createBasicFilters query =
     (let queryLower = toLowerCase query;
          has = includes_str queryLower;
          phase =
            (if has ''emergency'' \<or> has ''suicide'' \<or> has ''immediate'' \<or> has ''crisis''
             then Some immediate_crisis
             else if has ''acute'' \<or> has ''urgent'' \<or> has ''recent''
             then Some acute_support
             else if has ''recovery'' \<or> has ''rehabilitation'' \<or> has ''ongoing''
             then Some recovery_support
             else if has ''maintenance'' \<or> has ''preventive'' \<or> has ''wellness''
             then Some maintenance
             else None);
          gender =
            (if has ''women'' \<or> has ''female'' \<or> has ''girls'' then Some female
             else if has ''men'' \<or> has ''male'' \<or> has ''boys'' then Some male
             else None);
          crisis = (has ''crisis'' \<or> has ''emergency'' \<or> has ''hotline'');
          walk_ins =
            (has ''walk-in'' \<or> has ''walk in'' \<or> has ''drop-in'' \<or> has ''drop in''
             \<or> has ''no appointment'' \<or> has ''without appointment'');
          referral =
            (has ''referral'' \<or> has ''referred'' \<or> has ''recommendation''
             \<or> has ''by referral'');
          explanationParts =
            [''Searching for resources related to: \"'' @ query @ ''\".'']
            @ (case phase of
                 Some p \<Rightarrow> [''Identified care phase: '' @ care_phase_code p @ ''.'']
               | None \<Rightarrow> [])
            @ (case gender of
                 Some g \<Rightarrow> [''Filtering for '' @ gender_code g @ ''-specific services.'']
               | None \<Rightarrow> [])
            @ (if crisis then [''Prioritizing crisis services.''] else [])
            @ (if walk_ins then [''Showing walk-in accessible facilities.''] else [])
            @ (if referral then [''Showing referral-based services.''] else [])
            @ [''(Using basic keyword matching - LLM services unavailable)'']
      in \<lparr>originalQuery = query,
          filters = no_filters
            \<lparr>keywords := Some query,
             care_phase := phase,
             has_crisis_services := (if crisis then Some True else None),
             gender_specific := gender,
             walk_ins_accepted := (if walk_ins then Some True else None),
             referral_required := (if referral then Some True else None),
             urgentAccessOnly :=
               Some (has ''urgent'' \<or> has ''crisis'' \<or> has ''emergency'' \<or> has ''now''
                     \<or> has ''immediate''),
             max_distance_km := Some (Dec 25 0)\<rparr>,
          explanation = join '' '' explanationParts,
          confidence = Dec 3 1,
          metadata = \<lparr>provider = ''fallback'', model = ''keyword-matching'',
                      tokens_input = length query, tokens_output = 50\<rparr>\<rparr>)"

section \<open>Conversion to strings\<close>

datatype js_error = Error string | TypeError string

definition digit_char :: "int \<Rightarrow> char" where
  "digit_char d = char_of (48 + d)"

text \<open>The decimal digits of a non-negative integer, most significant first.\<close>

function digits10 :: "int \<Rightarrow> string" where
  "digits10 n = (if n < 10 then [digit_char n] else digits10 (n div 10) @ [digit_char (n mod 10)])"
  by pat_completeness auto
termination
  by (relation "measure nat") auto

declare digits10.simps [simp del]

definition bool_str :: "bool \<Rightarrow> string" where
  "bool_str b = (if b then ''true'' else ''false'')"

text \<open>
  \<open>Number.prototype.toString\<close> in radix 10, on the decimal that stands for the number:
  with \<open>k\<close> significant digits and the decimal point after the \<open>n\<close>-th of them, the
  number prints in positional notation for \<open>-6 < n \<le> 21\<close> and in exponent notation
  otherwise. Negative zero is not modelled.
\<close>

definition numToString :: "jsnum \<Rightarrow> string" where
  "numToString x =
     (case x of
        NaN \<Rightarrow> ''NaN''
      | PosInfinity \<Rightarrow> ''Infinity''
      | NegInfinity \<Rightarrow> ''-Infinity''
      | Dec m e \<Rightarrow>
          if m = 0 then ''0''
          else
            (let all = digits10 \<bar>m\<bar>;
                 ds = rev (dropWhile (\<lambda>c. c = CHR ''0'') (rev all));
                 k = int (length ds);
                 n = int (length all) - int e;
                 body =
                   (if k \<le> n \<and> n \<le> 21 then ds @ replicate (nat (n - k)) (CHR ''0'')
                    else if 0 < n \<and> n \<le> 21 then take (nat n) ds @ ''.'' @ drop (nat n) ds
                    else if -6 < n \<and> n \<le> 0 then ''0.'' @ replicate (nat (- n)) (CHR ''0'') @ ds
                    else
                      (let ex = (if n - 1 < 0 then ''-'' else ''+'') @ digits10 \<bar>n - 1\<bar>
                       in if k = 1 then ds @ ''e'' @ ex
                          else take 1 ds @ ''.'' @ drop 1 ds @ ''e'' @ ex))
             in (if m < 0 then ''-'' else []) @ body))"

text \<open>
  \<open>String(v)\<close> and the conversion a template literal applies; \<open>None\<close> is the TypeError
  of an object that cannot be converted (a data object with an own, non-callable
  \<open>toString\<close>). An array prints as its elements joined by commas, \<open>null\<close> and
  \<open>undefined\<close> elements as nothing.
\<close>

fun ToString :: "jsval \<Rightarrow> string option" where
  "ToString JUndefined = Some ''undefined''"
| "ToString JNull = Some ''null''"
| "ToString (JBool b) = Some (bool_str b)"
| "ToString (JNum n) = Some (numToString n)"
| "ToString (JStr s) = Some s"
| "ToString (JArr xs) =
     (let parts = map (\<lambda>x. if x = JUndefined \<or> x = JNull then Some [] else ToString x) xs
      in if None \<in> set parts then None else Some (join '','' (map the parts)))"
| "ToString (JObj kvs) =
     (if ''toString'' \<in> fst ` set kvs then None else Some ''[object Object]'')"

text \<open>An element of \<open>service_types\<close> as a string: \<open>join\<close> converts as a property key does.\<close>

definition svc_to_string :: "svc \<Rightarrow> string" where
  "svc_to_string t = property_key t"

section \<open>The schema transformer (lib/api/transform.ts)\<close>

definition invalid_coordinates :: "coordinate \<Rightarrow> js_error" where
  "invalid_coordinates c =
     (case (ToString (lat c), ToString (lon c)) of
        (Some a, Some b) \<Rightarrow>
          Error (''Invalid location coordinates: lat='' @ a @ '' ('' @ typeof (lat c)
                 @ ''), lon='' @ b @ '' ('' @ typeof (lon c) @ '')'')
      | _ \<Rightarrow> TypeError ''Cannot convert object to primitive value'')"

text \<open>
  The assignments \<open>if (cond) params.key = value\<close>, one helper per kind of condition:
  the value to store, or \<open>None\<close> when the condition fails and nothing is stored.
\<close>

definition assign :: "string \<Rightarrow> string option \<Rightarrow> (string \<times> string) list \<Rightarrow> (string \<times> string) list" where
  "assign k v params = (case v of Some s \<Rightarrow> AList.update k s params | None \<Rightarrow> params)"

text \<open>\<open>if (x) ... x\<close> on a string: present and not empty.\<close>

definition truthy_str :: "string option \<Rightarrow> string option" where
  "truthy_str v = (case v of Some s \<Rightarrow> if s \<noteq> [] then Some s else None | None \<Rightarrow> None)"

text \<open>\<open>if (x) ... x.toString()\<close> on a number: present, not zero and not \<open>NaN\<close>.\<close>

definition truthy_num :: "jsnum option \<Rightarrow> string option" where
  "truthy_num v =
     (case v of Some n \<Rightarrow> if num_truthy n then Some (numToString n) else None | None \<Rightarrow> None)"

text \<open>\<open>if (xs?.length) ... xs.join(',')\<close>: present and not empty.\<close>

definition joined :: "string list option \<Rightarrow> string option" where
  "joined v = (case v of Some xs \<Rightarrow> if xs \<noteq> [] then Some (join '','' xs) else None | None \<Rightarrow> None)"

text \<open>\<open>if (x !== undefined) ... x.toString()\<close>.\<close>

definition defined_bool :: "bool option \<Rightarrow> string option" where
  "defined_bool v = map_option bool_str v"

definition defined_num :: "jsnum option \<Rightarrow> string option" where
  "defined_num v = map_option numToString v"

definition transformFiltersToBackendParams ::
    "canonical_filters \<Rightarrow> js_error + (string \<times> string) list" where
  "transformFiltersToBackendParams fs =
     (let params = [];
          params = assign ''query'' (truthy_str (keywords fs)) params;
          located =
            (case location fs of
               None \<Rightarrow> Inr params
             | Some loc \<Rightarrow>
                 (case coordinates loc of
                    None \<Rightarrow> Inr params
                  | Some c \<Rightarrow>
                      if typeof (lat c) = ''number'' \<and> typeof (lon c) = ''number''
                      then (case (ToString (lat c), ToString (lon c)) of
                              (Some a, Some b) \<Rightarrow>
                                Inr (assign ''location'' (Some (a @ '','' @ b)) params)
                            | _ \<Rightarrow> Inl (TypeError ''Cannot convert object to primitive value''))
                      else Inl (invalid_coordinates c)))
      in case located of
           Inl e \<Rightarrow> Inl e
         | Inr params \<Rightarrow>
             (let params = assign ''radius_km'' (truthy_num (max_distance_km fs)) params;
                  params = assign ''service_types''
                             (joined (map_option (map svc_to_string) (service_types fs))) params;
                  params = assign ''insurance_types'' (joined (insurance fs)) params;
                  params = assign ''languages'' (joined (languages fs)) params;
                  params = assign ''age_groups''
                             (joined (map_option (map age_group_code) (age_groups fs))) params;
                  params = assign ''has_crisis_services''
                             (defined_bool (has_crisis_services fs)) params;
                  params = assign ''walk_ins_accepted'' (defined_bool (walk_ins_accepted fs)) params;
                  params = assign ''referral_required'' (defined_bool (referral_required fs)) params;
                  params = assign ''gender_specific''
                             (map_option gender_code (gender_specific fs)) params;
                  params = assign ''lgbtq_affirming'' (defined_bool (lgbtq_affirming fs)) params;
                  params = assign ''wheelchair_accessible''
                             (defined_bool (wheelchair_accessible fs)) params;
                  params = assign ''telehealth_available''
                             (defined_bool (telehealth_available fs)) params;
                  params = assign ''urgent_access_only'' (defined_bool (urgentAccessOnly fs)) params;
                  params = assign ''accepting_new_patients''
                             (defined_bool (acceptingNewPatients fs)) params;
                  params = assign ''care_phase'' (map_option care_phase_code (care_phase fs)) params;
                  params = assign ''verified_only'' (defined_bool (verified_only fs)) params;
                  params = assign ''min_confidence'' (defined_num (min_rcs fs)) params;
                  params = assign ''limit'' (truthy_num (limit fs)) params;
                  params = assign ''offset'' (truthy_num (offset fs)) params
              in Inr params))"

section \<open>The extraction orchestrator (lib/api/llm-fallback.ts)\<close>

text \<open>
  The two extraction services are the environment. One call to a service either
  rejects (network failure, quota, a non-2xx answer), comes back without usable content
  (OpenAI: an empty message; Anthropic: a first block that is not text), comes back with
  text that \<open>JSON.parse\<close> rejects or parses to \<open>null\<close>, or comes back with an object
  of the declared shape. The prompts only travel to the service and are not modelled.
\<close>

record llm_output =
  out_filters :: "canonical_filters option"
  out_explanation :: "string option"
  out_confidence :: "jsnum option"
  usage_input :: nat
  usage_output :: nat

datatype llm_call = ApiThrows string | NoContent | MalformedJSON string | Parsed llm_output

record llm_env =
  OPENAI_API_KEY :: "string option"
  ANTHROPIC_API_KEY :: "string option"
  openai :: "string \<Rightarrow> llm_call"
  anthropic :: "string \<Rightarrow> llm_call"

text \<open>An environment variable is truthy when it is set and not empty.\<close>

definition configured :: "string option \<Rightarrow> bool" where
  "configured key = (case key of Some k \<Rightarrow> k \<noteq> [] | None \<Rightarrow> False)"

record llm_provider =
  "name" :: string
  "extract" :: "string \<Rightarrow> js_error + extraction_response"

definition response_of :: "string \<Rightarrow> string \<Rightarrow> string \<Rightarrow> llm_output \<Rightarrow> extraction_response" where
  "response_of who which query parsed =
     \<lparr>originalQuery = query,
      filters = (case out_filters parsed of Some f \<Rightarrow> f | None \<Rightarrow> no_filters),
      explanation =
        (case out_explanation parsed of
           Some e \<Rightarrow> if e \<noteq> [] then e else ''Extracted filters from: \"'' @ query @ ''\"''
         | None \<Rightarrow> ''Extracted filters from: \"'' @ query @ ''\"''),
      confidence =
        (case out_confidence parsed of
           Some c \<Rightarrow> if num_truthy c then c else Dec 7 1
         | None \<Rightarrow> Dec 7 1),
      metadata = \<lparr>provider = who, model = which,
                  tokens_input = usage_input parsed, tokens_output = usage_output parsed\<rparr>\<rparr>"

definition OpenAIProvider :: "llm_env \<Rightarrow> llm_provider" where
  "OpenAIProvider env =
     \<lparr>name = ''openai'',
      extract = (\<lambda>query.
        if \<not> configured (OPENAI_API_KEY env) then Inl (Error ''OPENAI_API_KEY not configured'')
        else (case openai env query of
                ApiThrows msg \<Rightarrow> Inl (Error msg)
              | NoContent \<Rightarrow> Inl (Error ''OpenAI returned empty response'')
              | MalformedJSON msg \<Rightarrow> Inl (Error msg)
              | Parsed parsed \<Rightarrow>
                  Inr (response_of ''openai'' ''gpt-4-turbo-preview'' query parsed)))\<rparr>"

definition AnthropicProvider :: "llm_env \<Rightarrow> llm_provider" where
  "AnthropicProvider env =
     \<lparr>name = ''anthropic'',
      extract = (\<lambda>query.
        if \<not> configured (ANTHROPIC_API_KEY env)
        then Inl (Error ''ANTHROPIC_API_KEY not configured'')
        else (case anthropic env query of
                ApiThrows msg \<Rightarrow> Inl (Error msg)
              | NoContent \<Rightarrow> Inl (Error ''Anthropic returned non-text response'')
              | MalformedJSON msg \<Rightarrow> Inl (Error msg)
              | Parsed parsed \<Rightarrow>
                  Inr (response_of ''anthropic'' ''claude-3-5-sonnet-20241022'' query parsed)))\<rparr>"

text \<open>A call succeeds when the service returned an object that parsed.\<close>

fun succeeds :: "llm_call \<Rightarrow> bool" where
  "succeeds (Parsed _) = True"
| "succeeds _ = False"

text \<open>
  The response the OpenAI adapter builds for \<open>query\<close> when the service returned the
  filters \<open>f\<close> and nothing else.
\<close>

definition openai_answer :: "canonical_filters \<Rightarrow> string \<Rightarrow> extraction_response" where
  "openai_answer f query =
     response_of ''openai'' ''gpt-4-turbo-preview'' query
       \<lparr>out_filters = Some f, out_explanation = None, out_confidence = None,
        usage_input = 0, usage_output = 0\<rparr>"

text \<open>The \<open>for\<close> loop over the providers: the first success returns, a failure is kept
  as \<open>lastError\<close>.\<close>

fun try_providers ::
    "llm_provider list \<Rightarrow> string \<Rightarrow> js_error option \<Rightarrow> js_error + extraction_response" where
  "try_providers [] query lastError =
     Inl (case lastError of Some e \<Rightarrow> e | None \<Rightarrow> Error ''All LLM providers failed'')"
| "try_providers (p # ps) query lastError =
     (case extract p query of
        Inr result \<Rightarrow> Inr result
      | Inl error \<Rightarrow> try_providers ps query (Some error))"

definition extractFiltersWithFallback ::
    "llm_env \<Rightarrow> string \<Rightarrow> js_error + extraction_response" where
  "extractFiltersWithFallback env query =
     (let providers =
            filter (\<lambda>p. (name p = ''openai'' \<and> configured (OPENAI_API_KEY env))
                        \<or> (name p = ''anthropic'' \<and> configured (ANTHROPIC_API_KEY env)))
              [OpenAIProvider env, AnthropicProvider env]
      in if length providers = 0
         then Inl (Error ''No LLM providers configured (missing API keys)'')
         else try_providers providers query None)"

subsection \<open>The request handler POST /api/llm/extract-filters\<close>

datatype extract_reply =
    Json200 extraction_response
  | Json400 string
  | Json500 string

text \<open>
  The two strategies of the handler, which run once the input check has passed: the
  providers first, and the keyword fallback when they fail; either result goes through
  the validator. On filters of the declared types the validator cannot throw, so the
  inner \<open>catch\<close> is entered by a failure of the providers only.
\<close>

definition run_strategies :: "llm_env \<Rightarrow> string \<Rightarrow> extraction_response" where
  "run_strategies env query =
     (case extractFiltersWithFallback env query of
        Inr fallbackResponse \<Rightarrow> validateExtractedFilters fallbackResponse query
      | Inl llmError \<Rightarrow> validateExtractedFilters (createBasicFilters query) query)"

text \<open>
  The handler on a request whose body carries the string \<open>query\<close>. Nothing in the
  strategies throws, so the outer \<open>catch\<close> (status 500) is never entered.
\<close>

definition POST :: "llm_env \<Rightarrow> string \<Rightarrow> extract_reply" where
  "POST env query =
     (if query = [] \<or> length (trim query) = 0 then Json400 ''Query is required''
      else Json200 (run_strategies env query))"

section \<open>The backend client (lib/api/backend-client.ts)\<close>

text \<open>
  The backend is the environment: \<open>fetch url n\<close> is the outcome of the \<open>n\<close>-th call
  (counted from 0) that a request makes to \<open>url\<close>, a network failure or an answer.
  \<open>json\<close> is what \<open>response.json()\<close> resolves to, \<open>None\<close> when it rejects. Request headers
  are not modelled.
\<close>

record http_answer =
  status :: int
  statusText :: string
  json :: "jsval option"

datatype fetch_outcome = NetworkError string | Answer http_answer

type_synonym backend = "string \<Rightarrow> nat \<Rightarrow> fetch_outcome"

definition ok :: "http_answer \<Rightarrow> bool" where
  "ok r = (200 \<le> status r \<and> status r \<le> 299)"

record retry_options =
  maxRetries :: nat
  backoffMs :: int
  retryableStatuses :: "int list"

definition DEFAULT_RETRY_OPTIONS :: retry_options where
  "DEFAULT_RETRY_OPTIONS =
     \<lparr>maxRetries = 3, backoffMs = 1000, retryableStatuses = [408, 429, 500, 502, 503, 504]\<rparr>"

text \<open>What a call did to the world: the requests sent and the waits between them.\<close>

record trace =
  calls :: nat
  delays :: "int list"

definition http_error :: "http_answer \<Rightarrow> js_error" where
  "http_error r = Error (''HTTP '' @ digits10 (status r) @ '': '' @ statusText r)"

text \<open>
  The \<open>for\<close> loop of \<open>fetchWithRetry\<close>, from \<open>attempt\<close> on. The \<open>throw\<close> for a status
  that is not retryable stands inside the \<open>try\<close> block, so the \<open>catch\<close> of the same
  iteration receives it, exactly as it receives a network failure.
\<close>

function fetch_loop ::
    "retry_options \<Rightarrow> (nat \<Rightarrow> fetch_outcome) \<Rightarrow> nat \<Rightarrow> js_error option \<Rightarrow> trace
     \<Rightarrow> (js_error + http_answer) \<times> trace" where
  "fetch_loop opts fetch attempt lastError tr =
     (if attempt \<le> maxRetries opts then
        (let sent = tr\<lparr>calls := calls tr + 1\<rparr>;
             waited =
               (if attempt < maxRetries opts
                then sent\<lparr>delays := delays sent @ [backoffMs opts * 2 ^ attempt]\<rparr>
                else sent);
             caught = (\<lambda>error.
               if attempt = maxRetries opts then (Inl error, sent)
               else fetch_loop opts fetch (attempt + 1) (Some error) waited)
         in case fetch (calls tr) of
              NetworkError msg \<Rightarrow> caught (TypeError msg)
            | Answer response \<Rightarrow>
                if ok response then (Inr response, sent)
                else if status response \<notin> set (retryableStatuses opts)
                then caught (http_error response)
                else fetch_loop opts fetch (attempt + 1) (Some (http_error response)) waited)
      else (Inl (case lastError of Some e \<Rightarrow> e | None \<Rightarrow> Error ''Max retries exceeded''), tr))"
  by pat_completeness auto
termination
  by (relation "measure (\<lambda>(opts, fetch, attempt, lastError, tr). maxRetries opts + 1 - attempt)") auto

declare fetch_loop.simps [simp del]

definition fetchWithRetry ::
    "(nat \<Rightarrow> fetch_outcome) \<Rightarrow> retry_options \<Rightarrow> (js_error + http_answer) \<times> trace" where
  "fetchWithRetry fetch opts = fetch_loop opts fetch 0 None \<lparr>calls = 0, delays = []\<rparr>"

record backend_api_error =
  message :: string
  statusCode :: "int option"
  originalError :: js_error

definition FASTAPI_URL :: string where
  "FASTAPI_URL = ''https://api.wearecommonlight.com''"

text \<open>
  The body shared by the three client methods: any failure of the request or of
  \<open>response.json()\<close> becomes a \<open>BackendAPIError\<close> whose status code is \<open>undefined\<close>.
\<close>

definition client_call ::
    "backend \<Rightarrow> string \<Rightarrow> string \<Rightarrow> (backend_api_error + jsval) \<times> trace" where
  "client_call fetch url failure =
     (case fetchWithRetry (fetch url) DEFAULT_RETRY_OPTIONS of
        (Inr response, tr) \<Rightarrow>
          (case json response of
             Some j \<Rightarrow> (Inr j, tr)
           | None \<Rightarrow>
               (Inl \<lparr>message = failure, statusCode = None,
                     originalError = Error ''Unexpected end of JSON input''\<rparr>, tr))
      | (Inl error, tr) \<Rightarrow>
          (Inl \<lparr>message = failure, statusCode = None, originalError = error\<rparr>, tr))"

text \<open>\<open>new URLSearchParams(params).toString()\<close>: the form-urlencoded serialisation.\<close>

definition hex_digit :: "nat \<Rightarrow> char" where
  "hex_digit d = (if d < 10 then char_of (48 + d) else char_of (55 + d))"

definition percent :: "nat \<Rightarrow> string" where
  "percent b = [CHR ''%'', hex_digit (b div 16), hex_digit (b mod 16)]"

definition urlencode_char :: "char \<Rightarrow> string" where
  "urlencode_char c =
     (let n = (of_char c :: nat)
      in if (48 \<le> n \<and> n \<le> 57) \<or> (65 \<le> n \<and> n \<le> 90) \<or> (97 \<le> n \<and> n \<le> 122)
            \<or> n \<in> {42, 45, 46, 95}
         then [c]
         else if n = 32 then ''+''
         else if n < 128 then percent n
         else percent (192 + n div 64) @ percent (128 + n mod 64))"

definition urlencode :: "string \<Rightarrow> string" where
  "urlencode s = concat (map urlencode_char s)"

definition query_string :: "(string \<times> string) list \<Rightarrow> string" where
  "query_string params = join ''&'' (map (\<lambda>(k, v). urlencode k @ ''='' @ urlencode v) params)"

definition searchResources ::
    "backend \<Rightarrow> (string \<times> string) list \<Rightarrow> (backend_api_error + jsval) \<times> trace" where
  "searchResources fetch params =
     client_call fetch (FASTAPI_URL @ ''/v2/resources/search?'' @ query_string params)
       ''Failed to search resources''"

definition getResourceById :: "backend \<Rightarrow> string \<Rightarrow> (backend_api_error + jsval) \<times> trace" where
  "getResourceById fetch resourceId =
     client_call fetch (FASTAPI_URL @ ''/v2/resources/'' @ resourceId)
       ''Failed to get resource details''"

section \<open>The request handler GET /api/resources/[id]\<close>

definition is_hex :: "char \<Rightarrow> bool" where
  "is_hex c =
     (let n = (of_char c :: nat)
      in (48 \<le> n \<and> n \<le> 57) \<or> (97 \<le> n \<and> n \<le> 102) \<or> (65 \<le> n \<and> n \<le> 70))"

datatype uuid_slot = Hex | Dash

definition uuid_shape :: "uuid_slot list" where
  "uuid_shape =
     replicate 8 Hex @ [Dash] @ replicate 4 Hex @ [Dash] @ replicate 4 Hex @ [Dash]
     @ replicate 4 Hex @ [Dash] @ replicate 12 Hex"

fun fills :: "uuid_slot \<Rightarrow> char \<Rightarrow> bool" where
  "fills Hex c = is_hex c"
| "fills Dash c = (c = CHR ''-'')"

text \<open>The regular expression, anchored at both ends and case-insensitive.\<close>

definition uuidRegex_test :: "string \<Rightarrow> bool" where
  "uuidRegex_test s = list_all2 fills uuid_shape s"

datatype resource_body = Resource jsval | Failure string "string option"

text \<open>
  The handler returns a status and a body; the trace says what reached the backend.
  Logging the name of a resource that is \<open>null\<close> throws inside the inner \<open>try\<close>; that
  error is not a \<open>BackendAPIError\<close> and ends in the outer \<open>catch\<close>.
\<close>

definition GET :: "backend \<Rightarrow> string \<Rightarrow> (int \<times> resource_body) \<times> trace" where
  "GET fetch id' =
     (if \<not> uuidRegex_test id'
      then ((400, Failure ''Invalid resource ID format (expected UUID)'' None),
            \<lparr>calls = 0, delays = []\<rparr>)
      else (case getResourceById fetch id' of
              (Inr resource, tr) \<Rightarrow>
                if resource = JNull
                then ((500, Failure ''Failed to fetch resource details''
                              (Some ''Cannot read properties of null (reading 'name')'')), tr)
                else ((200, Resource resource), tr)
            | (Inl backendError, tr) \<Rightarrow>
                if statusCode backendError = Some 404
                then ((404, Failure ''Resource not found'' None), tr)
                else (((case statusCode backendError of
                          Some c \<Rightarrow> if c \<noteq> 0 then c else 500
                        | None \<Rightarrow> 500),
                       Failure ''Failed to fetch resource'' (Some (message backendError))), tr)))"

section \<open>Numbers and JSON read from strings\<close>

definition is_digit :: "char \<Rightarrow> bool" where
  "is_digit c = (let n = (of_char c :: nat) in 48 \<le> n \<and> n \<le> 57)"

definition digit_value :: "char \<Rightarrow> int" where
  "digit_value c =
     (let n = (of_char c :: int)
      in if 48 \<le> n \<and> n \<le> 57 then n - 48
         else if 97 \<le> n \<and> n \<le> 102 then n - 87
         else n - 55)"

definition radix_value :: "int \<Rightarrow> string \<Rightarrow> int" where
  "radix_value b ds = foldl (\<lambda>a c. b * a + digit_value c) 0 ds"

text \<open>
  The number read from the decimal \<open>m * 10 ^ x\<close>, for an integer exponent \<open>x\<close>: an
  infinity from \<open>2 ^ 1024 - 2 ^ 970\<close> on, where a double overflows, and otherwise the
  decimal itself, which stands for the double nearest to it.
\<close>

definition rounded :: "int \<Rightarrow> nat \<Rightarrow> jsnum" where
  "rounded m k =
     (if (2 ^ 1024 - 2 ^ 970) * 10 ^ k \<le> \<bar>m\<bar>
      then (if m < 0 then NegInfinity else PosInfinity)
      else Dec m k)"

definition scaled :: "int \<Rightarrow> int \<Rightarrow> jsnum" where
  "scaled m x = (if x < 0 then rounded m (nat (- x)) else rounded (m * 10 ^ nat x) 0)"

text \<open>
  An exponent part: nothing, or \<open>e\<close> or \<open>E\<close>, an optional sign and at least one digit,
  up to the end of the string. \<open>None\<close> when the text is something else.
\<close>

definition exponent_part :: "string \<Rightarrow> int option" where
  "exponent_part s =
     (case s of
        [] \<Rightarrow> Some 0
      | c # r \<Rightarrow>
          if c = CHR ''e'' \<or> c = CHR ''E'' then
            (let neg = startsWith r ''-'';
                 ds = (if startsWith r ''-'' \<or> startsWith r ''+'' then tl r else r)
             in if ds \<noteq> [] \<and> list_all is_digit ds
                then Some ((if neg then - 1 else 1) * radix_value 10 ds) else None)
          else None)"

text \<open>
  An unsigned decimal literal up to the end of the string: digits with an optional
  fraction, or a fraction alone, and an optional exponent.
\<close>

definition unsigned_decimal :: "string \<Rightarrow> jsnum" where
  "unsigned_decimal s =
     (let ip = takeWhile is_digit s;
          r1 = dropWhile is_digit s;
          dot = startsWith r1 ''.'';
          fp = (if dot then takeWhile is_digit (tl r1) else []);
          r2 = (if dot then dropWhile is_digit (tl r1) else r1)
      in if ip = [] \<and> fp = [] then NaN
         else (case exponent_part r2 of
                 None \<Rightarrow> NaN
               | Some x \<Rightarrow> scaled (radix_value 10 (ip @ fp)) (x - int (length fp))))"

definition negate :: "jsnum \<Rightarrow> jsnum" where
  "negate x =
     (case x of NaN \<Rightarrow> NaN | PosInfinity \<Rightarrow> NegInfinity | NegInfinity \<Rightarrow> PosInfinity
      | Dec m k \<Rightarrow> Dec (- m) k)"

definition radix_literal :: "int \<Rightarrow> (char \<Rightarrow> bool) \<Rightarrow> string \<Rightarrow> jsnum" where
  "radix_literal b allowed ds =
     (if ds \<noteq> [] \<and> list_all allowed ds then rounded (radix_value b ds) 0 else NaN)"

text \<open>
  \<open>Number(s)\<close> on a string: white space is trimmed, the empty string is 0, then an
  optionally signed \<open>Infinity\<close> or decimal literal, or an unsigned hexadecimal, octal or
  binary integer; anything else is \<open>NaN\<close>.
\<close>

definition Number :: "string \<Rightarrow> jsnum" where
  "Number s =
     (let t = trim s;
          unsigned = (\<lambda>u. if u = ''Infinity'' then PosInfinity else unsigned_decimal u)
      in if t = [] then Dec 0 0
         else if startsWith t ''0x'' \<or> startsWith t ''0X'' then radix_literal 16 is_hex (drop 2 t)
         else if startsWith t ''0o'' \<or> startsWith t ''0O''
         then radix_literal 8 (\<lambda>c. c \<in> set ''01234567'') (drop 2 t)
         else if startsWith t ''0b'' \<or> startsWith t ''0B''
         then radix_literal 2 (\<lambda>c. c \<in> set ''01'') (drop 2 t)
         else if startsWith t ''-'' then negate (unsigned (tl t))
         else if startsWith t ''+'' then unsigned (tl t)
         else unsigned t)"

definition isNaN :: "jsnum \<Rightarrow> bool" where
  "isNaN x = (x = NaN)"

subsection \<open>JSON.stringify\<close>

definition json_quote_char :: "char \<Rightarrow> string" where
  "json_quote_char c =
     (let n = (of_char c :: nat)
      in if n = 34 then [CHR 0x5C, CHR 0x22]
         else if n = 92 then [CHR 0x5C, CHR 0x5C]
         else if n = 8 then [CHR 0x5C, CHR ''b'']
         else if n = 12 then [CHR 0x5C, CHR ''f'']
         else if n = 10 then [CHR 0x5C, CHR ''n'']
         else if n = 13 then [CHR 0x5C, CHR ''r'']
         else if n = 9 then [CHR 0x5C, CHR ''t'']
         else if n < 32
         then [CHR 0x5C, CHR ''u'', CHR ''0'', CHR ''0'',
               if n < 16 then CHR ''0'' else CHR ''1'',
               if n mod 16 < 10 then char_of (48 + n mod 16) else char_of (87 + n mod 16)]
         else [c])"

definition json_quote :: "string \<Rightarrow> string" where
  "json_quote s = [CHR 0x22] @ concat (map json_quote_char s) @ [CHR 0x22]"

text \<open>
  \<open>None\<close> is \<open>undefined\<close>: an \<open>undefined\<close> member is left out of an object and printed
  as \<open>null\<close> in an array; a number that is not finite prints as \<open>null\<close>.
\<close>

fun JSON_stringify :: "jsval \<Rightarrow> string option"
  and stringify_elements :: "jsval list \<Rightarrow> string list"
  and stringify_members :: "(string \<times> jsval) list \<Rightarrow> string list" where
  "JSON_stringify JUndefined = None"
| "JSON_stringify JNull = Some ''null''"
| "JSON_stringify (JBool b) = Some (bool_str b)"
| "JSON_stringify (JNum n) =
     Some (case n of Dec m k \<Rightarrow> numToString n | _ \<Rightarrow> ''null'')"
| "JSON_stringify (JStr s) = Some (json_quote s)"
| "JSON_stringify (JArr xs) = Some (''['' @ join '','' (stringify_elements xs) @ '']'')"
| "JSON_stringify (JObj kvs) = Some (''{'' @ join '','' (stringify_members kvs) @ ''}'')"
| "stringify_elements [] = []"
| "stringify_elements (x # xs) =
     (case JSON_stringify x of None \<Rightarrow> ''null'' | Some t \<Rightarrow> t) # stringify_elements xs"
| "stringify_members [] = []"
| "stringify_members ((k, v) # kvs) =
     (case JSON_stringify v of
        None \<Rightarrow> stringify_members kvs
      | Some t \<Rightarrow> (json_quote k @ '':'' @ t) # stringify_members kvs)"

subsection \<open>JSON.parse\<close>

definition is_json_ws :: "char \<Rightarrow> bool" where
  "is_json_ws c = ((of_char c :: nat) \<in> {9, 10, 13, 32})"

definition skip_ws :: "string \<Rightarrow> string" where
  "skip_ws s = dropWhile is_json_ws s"

text \<open>
  A JSON number at the head of the text: an optional minus, an integer part without a
  leading zero, an optional fraction and an optional exponent, each with a digit.
\<close>

definition parse_number :: "string \<Rightarrow> (jsnum \<times> string) option" where
  "parse_number s =
     (let neg = startsWith s ''-'';
          u = (if neg then tl s else s);
          ip = takeWhile is_digit u;
          r1 = dropWhile is_digit u;
          dot = (startsWith r1 ''.'' \<and> takeWhile is_digit (tl r1) \<noteq> []);
          fp = (if dot then takeWhile is_digit (tl r1) else []);
          r2 = (if dot then dropWhile is_digit (tl r1) else r1);
          e = (startsWith r2 ''e'' \<or> startsWith r2 ''E'');
          r3 = (if e then tl r2 else r2);
          eneg = startsWith r3 ''-'';
          r4 = (if startsWith r3 ''-'' \<or> startsWith r3 ''+'' then tl r3 else r3);
          ex = (e \<and> takeWhile is_digit r4 \<noteq> []);
          x = (if ex then (if eneg then - 1 else 1) * radix_value 10 (takeWhile is_digit r4)
               else 0);
          rest = (if ex then dropWhile is_digit r4 else r2);
          m = radix_value 10 (ip @ fp)
      in if ip = [] \<or> (length ip > 1 \<and> startsWith ip ''0'') then None
         else Some (scaled (if neg then - m else m) (x - int (length fp)), rest))"

text \<open>
  The text of a string after its opening quote, up to the closing one. An escape
  \<open>\uXXXX\<close> above 255 has no character in this model and is refused.
\<close>

fun parse_string :: "string \<Rightarrow> (string \<times> string) option" where
  "parse_string [] = None"
| "parse_string (c # cs) =
     (if c = CHR 0x22 then Some ([], cs)
      else if c = CHR 0x5C then
        (case cs of
           [] \<Rightarrow> None
         | e # r \<Rightarrow>
             (if e = CHR ''u'' then
                (if length r \<ge> 4 \<and> list_all is_hex (take 4 r) \<and> radix_value 16 (take 4 r) < 256
                 then map_option (apfst ((#) (char_of (radix_value 16 (take 4 r)))))
                        (parse_string (drop 4 r))
                 else None)
              else
                (case map_of
                        [(CHR 0x22, CHR 0x22), (CHR 0x5C, CHR 0x5C), (CHR ''/'', CHR ''/''),
                         (CHR ''b'', CHR 0x08), (CHR ''f'', CHR 0x0C), (CHR ''n'', CHR 0x0A),
                         (CHR ''r'', CHR 0x0D), (CHR ''t'', CHR 0x09)] e of
                   None \<Rightarrow> None
                 | Some d \<Rightarrow> map_option (apfst ((#) d)) (parse_string r))))
      else if (of_char c :: nat) < 32 then None
      else map_option (apfst ((#) c)) (parse_string cs))"

text \<open>
  The recursive descent, with fuel. Two rounds of fuel go with every character read,
  so \<open>JSON_parse\<close> starts with more than the text can use. A repeated key keeps its
  first place and takes the last value.
\<close>

fun parse_value :: "nat \<Rightarrow> string \<Rightarrow> (jsval \<times> string) option"
  and parse_elements :: "nat \<Rightarrow> string \<Rightarrow> (jsval list \<times> string) option"
  and parse_members :: "nat \<Rightarrow> string \<Rightarrow> ((string \<times> jsval) list \<times> string) option" where
  "parse_value 0 s = None"
| "parse_value (Suc n) s =
     (if startsWith s ''{'' then
        (if startsWith (skip_ws (tl s)) ''}'' then Some (JObj [], tl (skip_ws (tl s)))
         else map_option (apfst (\<lambda>ms. JObj (fold (\<lambda>(k, v). AList.update k v) ms [])))
                (parse_members n (skip_ws (tl s))))
      else if startsWith s ''['' then
        (if startsWith (skip_ws (tl s)) '']'' then Some (JArr [], tl (skip_ws (tl s)))
         else map_option (apfst JArr) (parse_elements n (skip_ws (tl s))))
      else if startsWith s [CHR 0x22] then map_option (apfst JStr) (parse_string (tl s))
      else if startsWith s ''true'' then Some (JBool True, drop 4 s)
      else if startsWith s ''false'' then Some (JBool False, drop 5 s)
      else if startsWith s ''null'' then Some (JNull, drop 4 s)
      else map_option (apfst JNum) (parse_number s))"
| "parse_elements 0 s = None"
| "parse_elements (Suc n) s =
     (case parse_value n s of
        None \<Rightarrow> None
      | Some (v, r) \<Rightarrow>
          if startsWith (skip_ws r) '','' then
            map_option (apfst ((#) v)) (parse_elements n (skip_ws (tl (skip_ws r))))
          else if startsWith (skip_ws r) '']'' then Some ([v], tl (skip_ws r))
          else None)"
| "parse_members 0 s = None"
| "parse_members (Suc n) s =
     (if \<not> startsWith s [CHR 0x22] then None
      else (case parse_string (tl s) of
              None \<Rightarrow> None
            | Some (k, r) \<Rightarrow>
                if \<not> startsWith (skip_ws r) '':'' then None
                else (case parse_value n (skip_ws (tl (skip_ws r))) of
                        None \<Rightarrow> None
                      | Some (v, r') \<Rightarrow>
                          if startsWith (skip_ws r') '','' then
                            map_option (apfst ((#) (k, v)))
                              (parse_members n (skip_ws (tl (skip_ws r'))))
                          else if startsWith (skip_ws r') ''}'' then
                            Some ([(k, v)], tl (skip_ws r'))
                          else None)))"

text \<open>\<open>None\<close> is the SyntaxError.\<close>

definition JSON_parse :: "string \<Rightarrow> jsval option" where
  "JSON_parse s =
     (case parse_value (2 * length s + 2) (skip_ws s) of
        None \<Rightarrow> None
      | Some (v, r) \<Rightarrow> if skip_ws r = [] then Some v else None)"

section \<open>URL parameters (FilterUtils in types/search.ts)\<close>

text \<open>
  A \<open>URLSearchParams\<close> object is its list of name-value pairs. \<open>append\<close> adds a pair at
  the end; \<open>set\<close> overwrites the first pair of that name and removes the others, or
  appends when there is none.
\<close>

type_synonym url_params = "(string \<times> string) list"

definition append_param :: "string \<Rightarrow> string \<Rightarrow> url_params \<Rightarrow> url_params" where
  "append_param k v ps = ps @ [(k, v)]"

fun set_param :: "string \<Rightarrow> string \<Rightarrow> url_params \<Rightarrow> url_params" where
  "set_param k v [] = [(k, v)]"
| "set_param k v (p # ps) =
     (if fst p = k then (k, v) # filter (\<lambda>q. fst q \<noteq> k) ps else p # set_param k v ps)"

definition getAll :: "string \<Rightarrow> url_params \<Rightarrow> string list" where
  "getAll k ps = map snd (filter (\<lambda>p. fst p = k) ps)"

text \<open>
  A filter object is the list of its own properties in property order, with distinct
  names. \<open>toURLParams\<close> throws a TypeError (\<open>None\<close>) when an array element cannot be
  converted to a string.
\<close>

fun append_all :: "string \<Rightarrow> jsval list \<Rightarrow> url_params \<Rightarrow> url_params option" where
  "append_all key [] params = Some params"
| "append_all key (v # vs) params =
     (case ToString v of
        None \<Rightarrow> None
      | Some s \<Rightarrow> append_all key vs (append_param key s params))"

definition add_entry :: "string \<times> jsval \<Rightarrow> url_params \<Rightarrow> url_params option" where
  "add_entry entry params =
     (case entry of (key, v) \<Rightarrow>
        (case v of
           JUndefined \<Rightarrow> Some params
         | JNull \<Rightarrow> Some params
         | JArr vs \<Rightarrow> append_all key vs params
         | JObj kvs \<Rightarrow>
             Some (set_param key
                     (case JSON_stringify v of Some t \<Rightarrow> t | None \<Rightarrow> ''undefined'') params)
         | _ \<Rightarrow> map_option (\<lambda>t. set_param key t params) (ToString v)))"

fun entries_forEach :: "(string \<times> jsval) list \<Rightarrow> url_params \<Rightarrow> url_params option" where
  "entries_forEach [] params = Some params"
| "entries_forEach (entry # entries) params =
     (case add_entry entry params of
        None \<Rightarrow> None
      | Some params' \<Rightarrow> entries_forEach entries params')"

definition toURLParams :: "(string \<times> jsval) list \<Rightarrow> url_params option" where
  "toURLParams fs = entries_forEach fs []"

text \<open>
  The value \<open>fromURLParams\<close> stores for one visited pair: all values of a name that
  occurs more than once, and otherwise the value read as JSON, as a boolean, as a number
  or as the string it is.
\<close>

definition scalar_of :: "string \<Rightarrow> jsval" where
  "scalar_of v =
     (if startsWith v ''{'' \<or> startsWith v ''[''
      then (case JSON_parse v of Some parsed \<Rightarrow> parsed | None \<Rightarrow> JStr v)
      else if v = ''true'' \<or> v = ''false'' then JBool (v = ''true'')
      else if \<not> isNaN (Number v) then JNum (Number v)
      else JStr v)"

definition coerce :: "url_params \<Rightarrow> string \<Rightarrow> string \<Rightarrow> jsval" where
  "coerce params key v =
     (if length (getAll key params) > 1 then JArr (map JStr (getAll key params))
      else scalar_of v)"

text \<open>
  \<open>filters[key] = value\<close>: a new property goes to the end, an existing one keeps its
  place. Assigning to \<open>__proto__\<close> creates no own property.
\<close>

definition obj_set :: "string \<Rightarrow> jsval \<Rightarrow> (string \<times> jsval) list \<Rightarrow> (string \<times> jsval) list" where
  "obj_set key v obj = (if key = ''__proto__'' then obj else AList.update key v obj)"

definition fromURLParams :: "url_params \<Rightarrow> (string \<times> jsval) list" where
  "fromURLParams params =
     fold (\<lambda>(key, v) fs. obj_set key (coerce params key v) fs) params []"

section \<open>Properties of the validator\<close>

lemma fold_sort_type:
  "fst (fold sort_type ts (ms, is)) = ms @ List.map_filter corrected ts"
  by (induction ts arbitrary: ms "is")
     (auto simp: sort_type_def corrected_def split: option.splits)

lemma validate_absent:
  "service_types (filters r) = None \<Longrightarrow> validateExtractedFilters r q = r"
  by (simp add: validateExtractedFilters_def)

lemma validate_present:
  "service_types (filters r) = Some ts \<Longrightarrow>
   validateExtractedFilters r q =
     r\<lparr>filters :=
         (if new_Set (List.map_filter corrected ts) = [] \<and> q \<noteq> []
          then (filters r)\<lparr>service_types := Some (new_Set (List.map_filter corrected ts)),
                            keywords := Some q\<rparr>
          else (filters r)\<lparr>service_types := Some (new_Set (List.map_filter corrected ts))\<rparr>)\<rparr>"
  by (simp add: validateExtractedFilters_def Let_def fold_sort_type)

lemma filters_openai_answer: "filters (openai_answer f q) = f"
  by (simp add: openai_answer_def response_of_def)

lemma corrected_examples:
  "corrected (Code ''crisis_hotline'') = Some (Code ''crisis_line'')"
  "corrected (Code ''bogus_code'') = None"
  "corrected (Code ''constructor'') = Some (Inherited ''constructor'')"
  "corrected (Inherited ''constructor'') = None"
  by (simp_all add: corrected_def alias_get_def VALID_SERVICE_TYPES_def SERVICE_TYPE_ALIASES_def
        Object_prototype_keys_def)

text \<open>
  C5, amended. When the extraction result carries a \<open>service_types\<close> array (possibly
  empty), the corrected list is empty and the original query is not empty, the validator
  sets \<open>filters.keywords\<close> to the original query. When the result carries no
  \<open>service_types\<close> field, the validator returns it unchanged.
\<close>

theorem validate_restores_keywords:
  "(service_types (filters r) = None \<longrightarrow> validateExtractedFilters r q = r)
   \<and> (service_types (filters r) \<noteq> None
        \<and> service_types (filters (validateExtractedFilters r q)) = Some [] \<and> q \<noteq> []
        \<longrightarrow> keywords (filters (validateExtractedFilters r q)) = Some q)"
proof (intro conjI impI)
  assume "service_types (filters r) = None"
  then show "validateExtractedFilters r q = r"
    by (rule validate_absent)
next
  assume a: "service_types (filters r) \<noteq> None
    \<and> service_types (filters (validateExtractedFilters r q)) = Some [] \<and> q \<noteq> []"
  then obtain ts where ts: "service_types (filters r) = Some ts"
    by auto
  from a show "keywords (filters (validateExtractedFilters r q)) = Some q"
    by (auto simp: validate_present [OF ts] split: if_splits)
qed

text \<open>
  The theorem at a result whose only service type is unknown: the list empties and the
  query \<open>help\<close> becomes the keywords.
\<close>

theorem validate_restores_keywords_witness:
  "keywords (filters (validateExtractedFilters
      (openai_answer (no_filters\<lparr>service_types := Some [Code ''bogus_code'']\<rparr>) ''help'')
      ''help'')) = Some ''help''"
proof -
  let ?r = "openai_answer (no_filters\<lparr>service_types := Some [Code ''bogus_code'']\<rparr>) ''help''"
  have ts: "service_types (filters ?r) = Some [Code ''bogus_code'']"
    by (simp add: filters_openai_answer)
  have "service_types (filters (validateExtractedFilters ?r ''help'')) = Some []"
    by (subst validate_present [OF ts])
       (simp add: corrected_examples new_Set_def)
  with ts have "service_types (filters ?r) \<noteq> None
        \<and> service_types (filters (validateExtractedFilters ?r ''help'')) = Some []
        \<and> ''help'' \<noteq> []"
    by simp
  with validate_restores_keywords [of ?r "''help''"] show ?thesis
    by blast
qed

text \<open>
  The claim as stated fails when nothing was extracted and the field is absent: for the
  query \<open>help\<close> and a result that carries a care phase only, the validated filters have
  neither keywords nor service types.
\<close>

theorem validate_absent_counterexample:
  "keywords (filters (validateExtractedFilters
      (openai_answer (no_filters\<lparr>care_phase := Some immediate_crisis\<rparr>) ''help'') ''help'')) = None
   \<and> service_types (filters (validateExtractedFilters
      (openai_answer (no_filters\<lparr>care_phase := Some immediate_crisis\<rparr>) ''help'') ''help'')) = None"
  by (simp add: validateExtractedFilters_def filters_openai_answer no_filters_def)

text \<open>
  C6. The claim says that a value outside the vocabulary and without an alias is
  discarded. On \<open>["constructor", "bogus_code"]\<close> the code discards \<open>bogus_code\<close> but
  keeps, for \<open>constructor\<close>, the function that the alias table inherits from
  \<open>Object.prototype\<close>: the corrected list holds a value that is no service type.
\<close>

theorem validate_keeps_inherited_member:
  "service_types (filters (validateExtractedFilters
      (openai_answer (no_filters\<lparr>service_types := Some [Code ''constructor'', Code ''bogus_code'']\<rparr>)
         ''help'')
      ''help'')) = Some [Inherited ''constructor'']"
proof -
  let ?r = "openai_answer
    (no_filters\<lparr>service_types := Some [Code ''constructor'', Code ''bogus_code'']\<rparr>) ''help''"
  have ts: "service_types (filters ?r) = Some [Code ''constructor'', Code ''bogus_code'']"
    by (simp add: filters_openai_answer)
  show ?thesis
    by (subst validate_present [OF ts])
       (simp add: corrected_examples new_Set_def set_add_def)
qed

text \<open>The example of the specification: the alias is mapped, the unknown code dropped.\<close>

lemma validate_alias_example:
  "service_types (filters r) = Some [Code ''crisis_hotline'', Code ''bogus_code''] \<Longrightarrow>
   service_types (filters (validateExtractedFilters r q)) = Some [Code ''crisis_line'']"
  by (simp add: validate_present corrected_examples new_Set_def set_add_def)

text \<open>
  C9. The claim says that validating twice equals validating once. On a result whose
  service types are \<open>["constructor"]\<close> and whose keywords are absent, with the query
  \<open>help\<close>, the first pass stores the inherited function and leaves the keywords absent;
  the second pass drops the function, empties the list and sets the keywords.
\<close>

theorem validate_twice_differs:
  "(let r = openai_answer (no_filters\<lparr>service_types := Some [Code ''constructor'']\<rparr>) ''help'';
        once = validateExtractedFilters r ''help'';
        twice = validateExtractedFilters once ''help''
    in service_types (filters once) = Some [Inherited ''constructor'']
       \<and> keywords (filters once) = None
       \<and> service_types (filters twice) = Some []
       \<and> keywords (filters twice) = Some ''help''
       \<and> twice \<noteq> once)"
proof -
  let ?r = "openai_answer (no_filters\<lparr>service_types := Some [Code ''constructor'']\<rparr>) ''help''"
  let ?once = "validateExtractedFilters ?r ''help''"
  let ?twice = "validateExtractedFilters ?once ''help''"
  have ts: "service_types (filters ?r) = Some [Code ''constructor'']"
    by (simp add: filters_openai_answer)
  have once: "service_types (filters ?once) = Some [Inherited ''constructor'']"
    by (subst validate_present [OF ts])
       (simp add: corrected_examples new_Set_def set_add_def)
  have k1: "keywords (filters ?once) = None"
    by (subst validate_present [OF ts])
       (simp add: corrected_examples new_Set_def set_add_def
          filters_openai_answer no_filters_def)
  have twice: "service_types (filters ?twice) = Some []"
    by (subst validate_present [OF once])
       (simp add: corrected_examples new_Set_def)
  have k2: "keywords (filters ?twice) = Some ''help''"
    by (subst validate_present [OF once])
       (simp add: corrected_examples new_Set_def)
  from k1 k2 have "?twice \<noteq> ?once"
    by auto
  with once k1 twice k2 show ?thesis
    by (simp add: Let_def)
qed

lemma validate_service_types:
  "service_types (filters r) = Some ts \<Longrightarrow>
   service_types (filters (validateExtractedFilters r q))
     = Some (new_Set (List.map_filter corrected ts))"
  by (simp add: validate_present)

lemma alias_targets_valid:
  "map_of SERVICE_TYPE_ALIASES k = Some c \<Longrightarrow> c \<in> set VALID_SERVICE_TYPES"
  by (auto simp: SERVICE_TYPE_ALIASES_def VALID_SERVICE_TYPES_def split: if_splits)

lemma corrected_plain:
  "s \<notin> set Object_prototype_keys \<Longrightarrow>
   corrected (Code s) =
     (if s \<in> set VALID_SERVICE_TYPES then Some (Code s)
      else map_option Code (map_of SERVICE_TYPE_ALIASES s))"
  by (simp add: corrected_def alias_get_def split: option.splits)

lemma corrected_valid: "valid_has u \<Longrightarrow> corrected u = Some u"
  by (simp add: corrected_def)

lemma corrected_plain_valid:
  "s \<notin> set Object_prototype_keys \<Longrightarrow> corrected (Code s) = Some u \<Longrightarrow> valid_has u"
  by (auto simp: corrected_plain alias_targets_valid split: if_splits)

lemma fold_set_add:
  "set (fold set_add xs acc) = set acc \<union> set xs
   \<and> (distinct acc \<longrightarrow> distinct (fold set_add xs acc))"
  by (induction xs arbitrary: acc) (auto simp: set_add_def)

lemma fold_set_add_distinct:
  "distinct (acc @ xs) \<Longrightarrow> fold set_add xs acc = acc @ xs"
  by (induction xs arbitrary: acc) (auto simp: set_add_def)

lemma new_Set_props: "set (new_Set xs) = set xs" "distinct (new_Set xs)"
  using fold_set_add [of xs "[]"] by (simp_all add: new_Set_def)

lemma new_Set_distinct: "distinct xs \<Longrightarrow> new_Set xs = xs"
  using fold_set_add_distinct [of "[]" xs] by (simp add: new_Set_def)

lemma new_Set_Nil: "new_Set [] = []"
  by (simp add: new_Set_def)

lemma map_filter_corrected_valid:
  "\<forall>u \<in> set us. valid_has u \<Longrightarrow> List.map_filter corrected us = us"
  by (induction us) (simp_all add: corrected_valid)

lemma map_filter_plain_valid:
  "\<forall>t \<in> set ts. \<exists>s. t = Code s \<and> s \<notin> set Object_prototype_keys \<Longrightarrow>
   \<forall>u \<in> set (List.map_filter corrected ts). valid_has u"
  by (induction ts) (auto split: option.splits dest: corrected_plain_valid)

text \<open>
  Where no service type is the name of a member of \<open>Object.prototype\<close>, the validator
  is idempotent: every corrected element is in the vocabulary, and the corrected list
  has no duplicates.
\<close>

lemma validate_idempotent_on_plain_types:
  assumes "case service_types (filters r) of
             None \<Rightarrow> True
           | Some ts \<Rightarrow> \<forall>t \<in> set ts. \<exists>s. t = Code s \<and> s \<notin> set Object_prototype_keys"
  shows "validateExtractedFilters (validateExtractedFilters r q) q = validateExtractedFilters r q"
proof (cases "service_types (filters r)")
  case None
  then show ?thesis
    by (simp add: validate_absent)
next
  case (Some ts)
  let ?us = "new_Set (List.map_filter corrected ts)"
  from assms Some have "\<forall>u \<in> set (List.map_filter corrected ts). valid_has u"
    by (simp add: map_filter_plain_valid)
  then have v: "\<forall>u \<in> set ?us. valid_has u"
    by (simp add: new_Set_props)
  have again: "new_Set (List.map_filter corrected ?us) = ?us"
    by (simp add: map_filter_corrected_valid [OF v] new_Set_distinct new_Set_props)
  let ?R = "r\<lparr>filters :=
         (if ?us = [] \<and> q \<noteq> []
          then (filters r)\<lparr>service_types := Some ?us, keywords := Some q\<rparr>
          else (filters r)\<lparr>service_types := Some ?us\<rparr>)\<rparr>"
  have v1: "validateExtractedFilters r q = ?R"
    by (rule validate_present [OF Some])
  have st: "service_types (filters ?R) = Some ?us"
    by simp
  have "validateExtractedFilters ?R q = ?R"
    by (subst validate_present [OF st]) (auto simp: again new_Set_Nil)
  then show ?thesis
    unfolding v1 .
qed

section \<open>Properties of the keyword fallback\<close>

text \<open>
  C8. For every query string \<open>q\<close> the keyword fallback returns filters whose keywords are
  \<open>q\<close> itself and whose \<open>max_distance_km\<close> is 25. The result is a function of \<open>q\<close> alone:
  the source reads nothing but its argument, and the model has no other input, so two
  applications to the same \<open>q\<close> give the same value.
\<close>

theorem createBasicFilters_keeps_query:
  "keywords (filters (createBasicFilters q)) = Some q
   \<and> max_distance_km (filters (createBasicFilters q)) = Some (Dec 25 0)
   \<and> originalQuery (createBasicFilters q) = q"
  by (simp add: createBasicFilters_def Let_def no_filters_def)

text \<open>The scenario of the specification.\<close>

lemma createBasicFilters_scenario:
  "(let r = createBasicFilters ''emergency help for suicidal thoughts''
    in care_phase (filters r) = Some immediate_crisis
       \<and> has_crisis_services (filters r) = Some True
       \<and> urgentAccessOnly (filters r) = Some True
       \<and> keywords (filters r) = Some ''emergency help for suicidal thoughts''
       \<and> confidence r = Dec 3 1)"
  by code_simp

section \<open>Properties of the orchestrator\<close>

lemma provider_validate:
  "provider (metadata (validateExtractedFilters r q)) = provider (metadata r)"
  by (simp add: validateExtractedFilters_def Let_def split: option.splits)

lemma provider_response_of: "provider (metadata (response_of who which q p)) = who"
  by (simp add: response_of_def)

lemma validate_basic: "validateExtractedFilters (createBasicFilters q) q = createBasicFilters q"
  by (simp add: validateExtractedFilters_def createBasicFilters_def Let_def no_filters_def)

lemma basic_provider:
  "provider (metadata (createBasicFilters q)) = ''fallback''
   \<and> confidence (createBasicFilters q) = Dec 3 1"
  by (simp add: createBasicFilters_def Let_def)

lemma trim_Nil: "trim [] = []"
  by (simp add: trim_def)

lemma extract_fails:
  "(\<not> configured (OPENAI_API_KEY env) \<or> \<not> succeeds (openai env q)) \<Longrightarrow>
   (\<not> configured (ANTHROPIC_API_KEY env) \<or> \<not> succeeds (anthropic env q)) \<Longrightarrow>
   isl (extractFiltersWithFallback env q)"
  by (auto simp: extractFiltersWithFallback_def OpenAIProvider_def AnthropicProvider_def
           split: llm_call.splits)

lemma extract_provider:
  "extractFiltersWithFallback env q = Inr r \<Longrightarrow>
   (provider (metadata r) = ''openai'' \<and> configured (OPENAI_API_KEY env)
      \<and> succeeds (openai env q))
   \<or> (provider (metadata r) = ''anthropic'' \<and> configured (ANTHROPIC_API_KEY env)
      \<and> succeeds (anthropic env q))"
  by (auto simp: extractFiltersWithFallback_def OpenAIProvider_def AnthropicProvider_def
           provider_response_of split: llm_call.splits if_splits)

text \<open>
  C4. For every query string, every configuration of the two keys and every behaviour
  of the two services, the strategies of the handler return an extraction result whose
  provider is \<open>fallback\<close> or a configured provider. When every configured provider
  fails, or none is configured, the result is the keyword fallback of the query, with
  confidence 0.3 and provider \<open>fallback\<close>. For a query that is not empty after trimming
  the handler answers with status 200 and that result.
\<close>

theorem strategies_always_answer:
  "(provider (metadata (run_strategies env query)) = ''fallback''
      \<or> provider (metadata (run_strategies env query)) = ''openai''
          \<and> configured (OPENAI_API_KEY env)
      \<or> provider (metadata (run_strategies env query)) = ''anthropic''
          \<and> configured (ANTHROPIC_API_KEY env))
   \<and> ((\<not> configured (OPENAI_API_KEY env) \<or> \<not> succeeds (openai env query))
       \<and> (\<not> configured (ANTHROPIC_API_KEY env) \<or> \<not> succeeds (anthropic env query))
       \<longrightarrow> run_strategies env query = createBasicFilters query
           \<and> confidence (run_strategies env query) = Dec 3 1
           \<and> provider (metadata (run_strategies env query)) = ''fallback'')
   \<and> (trim query \<noteq> [] \<longrightarrow> POST env query = Json200 (run_strategies env query))"
proof (intro conjI)
  show "trim query \<noteq> [] \<longrightarrow> POST env query = Json200 (run_strategies env query)"
    by (auto simp: POST_def trim_Nil)
next
  show "provider (metadata (run_strategies env query)) = ''fallback''
      \<or> provider (metadata (run_strategies env query)) = ''openai''
          \<and> configured (OPENAI_API_KEY env)
      \<or> provider (metadata (run_strategies env query)) = ''anthropic''
          \<and> configured (ANTHROPIC_API_KEY env)"
  proof (cases "extractFiltersWithFallback env query")
    case (Inl e)
    then show ?thesis
      by (simp add: run_strategies_def validate_basic basic_provider)
  next
    case (Inr r)
    with extract_provider [OF Inr] show ?thesis
      by (auto simp: run_strategies_def provider_validate)
  qed
next
  show "(\<not> configured (OPENAI_API_KEY env) \<or> \<not> succeeds (openai env query))
       \<and> (\<not> configured (ANTHROPIC_API_KEY env) \<or> \<not> succeeds (anthropic env query))
       \<longrightarrow> run_strategies env query = createBasicFilters query
           \<and> confidence (run_strategies env query) = Dec 3 1
           \<and> provider (metadata (run_strategies env query)) = ''fallback''"
  proof
    assume "(\<not> configured (OPENAI_API_KEY env) \<or> \<not> succeeds (openai env query))
       \<and> (\<not> configured (ANTHROPIC_API_KEY env) \<or> \<not> succeeds (anthropic env query))"
    then have "isl (extractFiltersWithFallback env query)"
      by (blast intro: extract_fails)
    then have "run_strategies env query = createBasicFilters query"
      by (auto simp: run_strategies_def validate_basic isl_def)
    then show "run_strategies env query = createBasicFilters query
           \<and> confidence (run_strategies env query) = Dec 3 1
           \<and> provider (metadata (run_strategies env query)) = ''fallback''"
      by (simp add: basic_provider)
  qed
qed

text \<open>
  The theorem where OpenAI is not configured and Anthropic answers with text that is
  not JSON: the query \<open>help\<close> gets its keyword fallback, with status 200.
\<close>

theorem strategies_always_answer_witness:
  "POST \<lparr>OPENAI_API_KEY = None, ANTHROPIC_API_KEY = Some ''key'',
         openai = (\<lambda>q. NoContent), anthropic = (\<lambda>q. MalformedJSON ''Unexpected token'')\<rparr>
     ''help'' = Json200 (createBasicFilters ''help'')"
proof -
  let ?env = "\<lparr>OPENAI_API_KEY = None, ANTHROPIC_API_KEY = Some ''key'',
    openai = (\<lambda>q. NoContent), anthropic = (\<lambda>q. MalformedJSON ''Unexpected token'')\<rparr>"
  have t: "trim ''help'' \<noteq> []"
    by code_simp
  have f: "(\<not> configured (OPENAI_API_KEY ?env) \<or> \<not> succeeds (openai ?env ''help''))
       \<and> (\<not> configured (ANTHROPIC_API_KEY ?env) \<or> \<not> succeeds (anthropic ?env ''help''))"
    by (simp add: configured_def)
  from strategies_always_answer [of ?env "''help''"] t f show ?thesis
    by metis
qed

section \<open>Properties of the schema transformer\<close>

lemma map_of_assign:
  "map_of (assign k v ps) k' =
     (if k = k' then (case v of Some s \<Rightarrow> Some s | None \<Rightarrow> map_of ps k') else map_of ps k')"
  by (simp add: assign_def update_conv' split: option.splits)

lemma typeof_number: "typeof v = ''number'' \<longleftrightarrow> (\<exists>n. v = JNum n)"
  by (cases v) simp_all

lemma transform_invalid:
  "location fs = Some loc \<Longrightarrow> coordinates loc = Some c \<Longrightarrow>
   typeof (lat c) \<noteq> ''number'' \<or> typeof (lon c) \<noteq> ''number'' \<Longrightarrow>
   transformFiltersToBackendParams fs = Inl (invalid_coordinates c)"
  by (auto simp: transformFiltersToBackendParams_def Let_def)

lemma transform_numbers:
  "location fs = Some loc \<Longrightarrow> coordinates loc = Some c \<Longrightarrow>
   lat c = JNum a \<Longrightarrow> lon c = JNum b \<Longrightarrow>
   \<exists>params. transformFiltersToBackendParams fs = Inr params
     \<and> map_of params ''location'' = Some (numToString a @ '','' @ numToString b)"
  by (simp add: transformFiltersToBackendParams_def Let_def map_of_assign)

lemma print_example:
  "numToString (Dec 397 1) = ''39.7''" "numToString (Dec (- 10499) 2) = ''-104.99''"
  by code_simp+

text \<open>
  C1, amended. The transform fails with an error whenever \<open>location.coordinates\<close> is
  present but \<open>lat\<close> or \<open>lon\<close> is not of type number (a string, \<open>null\<close>, a missing
  field); for the coordinates 39.7 and -104.99 it returns a map whose \<open>location\<close> is
  \<open>39.7,-104.99\<close>.
\<close>

theorem transform_coordinate_guard:
  "(location fs = Some loc \<and> coordinates loc = Some c
      \<and> (typeof (lat c) \<noteq> ''number'' \<or> typeof (lon c) \<noteq> ''number'')
    \<longrightarrow> transformFiltersToBackendParams fs = Inl (invalid_coordinates c))
   \<and> (location fs = Some loc
      \<and> coordinates loc = Some \<lparr>lat = JNum (Dec 397 1), lon = JNum (Dec (- 10499) 2)\<rparr>
    \<longrightarrow> (\<exists>params. transformFiltersToBackendParams fs = Inr params
           \<and> map_of params ''location'' = Some ''39.7,-104.99''))"
proof (intro conjI impI)
  assume "location fs = Some loc \<and> coordinates loc = Some c
      \<and> (typeof (lat c) \<noteq> ''number'' \<or> typeof (lon c) \<noteq> ''number'')"
  then show "transformFiltersToBackendParams fs = Inl (invalid_coordinates c)"
    by (blast intro: transform_invalid)
next
  assume a: "location fs = Some loc
      \<and> coordinates loc = Some \<lparr>lat = JNum (Dec 397 1), lon = JNum (Dec (- 10499) 2)\<rparr>"
  let ?c = "\<lparr>lat = JNum (Dec 397 1), lon = JNum (Dec (- 10499) 2)\<rparr>"
  from a have l: "location fs = Some loc" and c: "coordinates loc = Some ?c"
    by simp_all
  have "\<exists>params. transformFiltersToBackendParams fs = Inr params
      \<and> map_of params ''location''
          = Some (numToString (Dec 397 1) @ '','' @ numToString (Dec (- 10499) 2))"
    by (rule transform_numbers [OF l c]) simp_all
  then show "\<exists>params. transformFiltersToBackendParams fs = Inr params
           \<and> map_of params ''location'' = Some ''39.7,-104.99''"
    unfolding print_example by simp
qed

text \<open>
  The theorem at the latitude \<open>"abc"\<close>, which is a string, and at the coordinates of
  the example.
\<close>

theorem transform_coordinate_guard_witness:
  "transformFiltersToBackendParams
     (no_filters\<lparr>location := Some \<lparr>address = [],
        coordinates = Some \<lparr>lat = JStr ''abc'', lon = JNum (Dec (- 1049) 1)\<rparr>\<rparr>\<rparr>)
     = Inl (Error ''Invalid location coordinates: lat=abc (string), lon=-104.9 (number)'')
   \<and> (\<exists>params. transformFiltersToBackendParams
         (no_filters\<lparr>location := Some \<lparr>address = [],
            coordinates = Some \<lparr>lat = JNum (Dec 397 1), lon = JNum (Dec (- 10499) 2)\<rparr>\<rparr>\<rparr>)
         = Inr params \<and> map_of params ''location'' = Some ''39.7,-104.99'')"
proof -
  let ?c = "\<lparr>lat = JStr ''abc'', lon = JNum (Dec (- 1049) 1)\<rparr>"
  let ?bad = "\<lparr>address = [], coordinates = Some ?c\<rparr>"
  let ?good = "\<lparr>address = [],
    coordinates = Some \<lparr>lat = JNum (Dec 397 1), lon = JNum (Dec (- 10499) 2)\<rparr>\<rparr>"
  have e: "invalid_coordinates ?c
    = Error ''Invalid location coordinates: lat=abc (string), lon=-104.9 (number)''"
    by code_simp
  have 1: "location (no_filters\<lparr>location := Some ?bad\<rparr>) = Some ?bad \<and> coordinates ?bad = Some ?c
      \<and> (typeof (lat ?c) \<noteq> ''number'' \<or> typeof (lon ?c) \<noteq> ''number'')"
    by simp
  have 2: "location (no_filters\<lparr>location := Some ?good\<rparr>) = Some ?good
      \<and> coordinates ?good = Some \<lparr>lat = JNum (Dec 397 1), lon = JNum (Dec (- 10499) 2)\<rparr>"
    by simp
  from transform_coordinate_guard [of "no_filters\<lparr>location := Some ?bad\<rparr>" ?bad ?c] 1
       transform_coordinate_guard [of "no_filters\<lparr>location := Some ?good\<rparr>" ?good] 2 e
  show ?thesis
    by metis
qed

text \<open>
  The claim as stated fails at the latitude \<open>NaN\<close>: its type is number, the guard lets
  it pass and the map carries the location \<open>NaN,-104.9\<close>.
\<close>

theorem transform_NaN_counterexample:
  "transformFiltersToBackendParams
     (no_filters\<lparr>location := Some \<lparr>address = [],
        coordinates = Some \<lparr>lat = JNum NaN, lon = JNum (Dec (- 1049) 1)\<rparr>\<rparr>\<rparr>)
   = Inr [(''location'', ''NaN,-104.9'')]"
  by code_simp

section \<open>Properties of the backend client\<close>

lemma fetch_loop_past:
  "maxRetries opts < attempt \<Longrightarrow>
   fetch_loop opts fetch attempt (Some e) tr = (Inl e, tr)"
  by (subst fetch_loop.simps) simp

lemma fetch_loop_failing:
  assumes "\<not> ok r"
  shows "attempt \<le> maxRetries opts \<Longrightarrow>
     fetch_loop opts (\<lambda>n. Answer r) attempt le tr =
       (Inl (http_error r),
        \<lparr>calls = calls tr + (maxRetries opts + 1 - attempt),
         delays = delays tr @ map (\<lambda>a. backoffMs opts * 2 ^ a) [attempt..<maxRetries opts]\<rparr>)"
proof (induction "maxRetries opts - attempt" arbitrary: attempt le tr)
  case 0
  then have eq: "attempt = maxRetries opts" by simp
  show ?case
    using assms by (subst fetch_loop.simps) (simp add: eq Let_def fetch_loop_past)
next
  case (Suc d)
  then have lt: "attempt < maxRetries opts" and d: "d = maxRetries opts - Suc attempt"
    and le': "Suc attempt \<le> maxRetries opts"
    by simp_all
  have up: "[attempt..<maxRetries opts] = attempt # [Suc attempt..<maxRetries opts]"
    using lt by (simp add: upt_conv_Cons)
  have ih: "fetch_loop opts (\<lambda>n. Answer r) (Suc attempt) le' tr' =
       (Inl (http_error r),
        \<lparr>calls = calls tr' + (maxRetries opts + 1 - Suc attempt),
         delays = delays tr' @ map (\<lambda>a. backoffMs opts * 2 ^ a) [Suc attempt..<maxRetries opts]\<rparr>)"
    for le' tr'
    by (rule Suc.hyps(1) [OF d le'])
  show ?case
    using assms lt
    by (subst fetch_loop.simps) (auto simp: Let_def ih up)
qed

lemma fetchWithRetry_failing:
  "\<not> ok r \<Longrightarrow>
   fetchWithRetry (\<lambda>n. Answer r) opts =
     (Inl (http_error r),
      \<lparr>calls = maxRetries opts + 1,
       delays = map (\<lambda>a. backoffMs opts * 2 ^ a) [0..<maxRetries opts]\<rparr>)"
  by (simp add: fetchWithRetry_def fetch_loop_failing)

lemma fetchWithRetry_default_failing:
  "\<not> ok r \<Longrightarrow>
   fetchWithRetry (\<lambda>n. Answer r) DEFAULT_RETRY_OPTIONS =
     (Inl (http_error r), \<lparr>calls = 4, delays = [1000, 2000, 4000]\<rparr>)"
proof -
  have m: "maxRetries DEFAULT_RETRY_OPTIONS = 3" and b: "backoffMs DEFAULT_RETRY_OPTIONS = 1000"
    by (simp_all add: DEFAULT_RETRY_OPTIONS_def)
  have u: "[0..<3] = [0, 1, 2]"
    by (simp add: upt_rec numeral_eq_Suc)
  show "\<not> ok r \<Longrightarrow> ?thesis"
    by (simp add: fetchWithRetry_failing m b u)
qed

text \<open>
  C2. The claim says that a status that is not retryable fails at once, after one
  request, with an error that carries the status code. Against a backend that always
  answers 404 the code sends four requests, waits 1000, 2000 and 4000 ms between them,
  and ends with the plain error \<open>HTTP 404: Not Found\<close>.
\<close>

theorem non_retryable_status_is_retried:
  "fetchWithRetry (\<lambda>n. Answer \<lparr>status = 404, statusText = ''Not Found'', json = None\<rparr>)
     DEFAULT_RETRY_OPTIONS =
   (Inl (Error ''HTTP 404: Not Found''), \<lparr>calls = 4, delays = [1000, 2000, 4000]\<rparr>)"
  by code_simp

text \<open>
  C3. Against a backend that always answers 503, \<open>searchResources\<close> sends four requests
  and waits 1000, 2000 and 4000 ms between them, as the claim says; the error it raises
  carries no status code, where the claim says 503.
\<close>

theorem searchResources_drops_status:
  "searchResources (\<lambda>url n. Answer \<lparr>status = 503, statusText = ''Service Unavailable'', json = None\<rparr>) params =
   (Inl \<lparr>message = ''Failed to search resources'', statusCode = None,
         originalError = Error ''HTTP 503: Service Unavailable''\<rparr>,
    \<lparr>calls = 4, delays = [1000, 2000, 4000]\<rparr>)"
proof -
  have e: "http_error \<lparr>status = 503, statusText = ''Service Unavailable'', json = None\<rparr> = Error ''HTTP 503: Service Unavailable''"
    by code_simp
  show ?thesis
    by (simp add: searchResources_def client_call_def fetchWithRetry_default_failing ok_def e)
qed

section \<open>Properties of the resource handler\<close>

lemma GET_invalid_id:
  "\<not> uuidRegex_test i \<Longrightarrow>
   GET fetch i = ((400, Failure ''Invalid resource ID format (expected UUID)'' None),
                  \<lparr>calls = 0, delays = []\<rparr>)"
  by (simp add: GET_def)

lemma GET_backend_failure:
  "uuidRegex_test i \<Longrightarrow> \<not> ok r \<Longrightarrow>
   GET (\<lambda>url n. Answer r) i =
     ((500, Failure ''Failed to fetch resource'' (Some ''Failed to get resource details'')),
      \<lparr>calls = 4, delays = [1000, 2000, 4000]\<rparr>)"
  by (simp add: GET_def getResourceById_def client_call_def fetchWithRetry_default_failing)

text \<open>
  C7. An id that is not a UUID is answered with 400 before any request is sent, as the
  claim says. The claim also says that a 404 of the backend is answered with 404 and
  that other backend errors keep their status. For a well-formed id and a backend that
  always answers 404, the handler answers 500, after four requests.
\<close>

theorem GET_answers_500_for_404:
  "GET (\<lambda>url n. Answer \<lparr>status = 404, statusText = ''Not Found'', json = None\<rparr>)
     ''123e4567-e89b-12d3-a456-426614174000'' =
   ((500, Failure ''Failed to fetch resource'' (Some ''Failed to get resource details'')),
    \<lparr>calls = 4, delays = [1000, 2000, 4000]\<rparr>)"
proof -
  have "uuidRegex_test ''123e4567-e89b-12d3-a456-426614174000''"
    by code_simp
  then show ?thesis
    by (simp add: GET_backend_failure ok_def)
qed

section \<open>Properties of the URL parameters\<close>

lemma getAll_Nil [simp]: "getAll k [] = []"
  by (simp add: getAll_def)

lemma getAll_append [simp]: "getAll k (ps @ qs) = getAll k ps @ getAll k qs"
  by (simp add: getAll_def)

lemma getAll_Cons: "getAll k (p # ps) = (if fst p = k then snd p # getAll k ps else getAll k ps)"
  by (simp add: getAll_def)

lemma getAll_filter_other: "getAll k (filter (\<lambda>q. fst q \<noteq> k') ps) = (if k' = k then [] else getAll k ps)"
  by (induction ps) (auto simp: getAll_Cons)

lemma getAll_set_param:
  "getAll k (set_param k' v ps) = (if k' = k then [v] else getAll k ps)"
  by (induction ps) (auto simp: getAll_Cons getAll_filter_other)

lemma getAll_append_all:
  "append_all k' vs ps = Some ps' \<Longrightarrow>
   getAll k ps' = getAll k ps @ (if k' = k then map (the \<circ> ToString) vs else [])"
  by (induction vs arbitrary: ps)
     (auto simp: append_param_def getAll_Cons split: option.splits)

lemma getAll_add_entry_other:
  "k' \<noteq> k \<Longrightarrow> add_entry (k', v) ps = Some ps' \<Longrightarrow> getAll k ps' = getAll k ps"
  by (cases v) (auto simp: add_entry_def getAll_set_param getAll_append_all)

lemma getAll_entries_other:
  "k \<notin> fst ` set fs \<Longrightarrow> entries_forEach fs ps = Some ps' \<Longrightarrow> getAll k ps' = getAll k ps"
proof (induction fs arbitrary: ps)
  case Nil
  then show ?case by simp
next
  case (Cons e fs)
  obtain k' v where e: "e = (k', v)" by (cases e)
  from Cons.prems e obtain ps1 where a: "add_entry (k', v) ps = Some ps1"
    and r: "entries_forEach fs ps1 = Some ps'"
    by (auto split: option.splits)
  from Cons.prems e have "k' \<noteq> k" "k \<notin> fst ` set fs" by auto
  then show ?case
    using Cons.IH [OF _ r] getAll_add_entry_other [OF _ a] by simp
qed

lemma getAll_entries_array:
  "distinct (map fst fs) \<Longrightarrow> (k, JArr vs) \<in> set fs \<Longrightarrow> entries_forEach fs ps = Some ps' \<Longrightarrow>
   getAll k ps' = getAll k ps @ map (the \<circ> ToString) vs"
proof (induction fs arbitrary: ps)
  case Nil
  then show ?case by simp
next
  case (Cons e fs)
  obtain k' v where e: "e = (k', v)" by (cases e)
  from Cons.prems e obtain ps1 where a: "add_entry (k', v) ps = Some ps1"
    and r: "entries_forEach fs ps1 = Some ps'"
    by (auto split: option.splits)
  show ?case
  proof (cases "k' = k")
    case True
    with Cons.prems e have v: "v = JArr vs" and notin: "k \<notin> fst ` set fs"
      by (auto simp: image_iff) 
    from a v True have "append_all k vs ps = Some ps1"
      by (simp add: add_entry_def)
    then have "getAll k ps1 = getAll k ps @ map (the \<circ> ToString) vs"
      by (simp add: getAll_append_all)
    with getAll_entries_other [OF notin r] show ?thesis by simp
  next
    case False
    with Cons.prems e have "(k, JArr vs) \<in> set fs" "distinct (map fst fs)" by auto
    from Cons.IH [OF this(2) this(1) r] getAll_add_entry_other [OF False a] show ?thesis
      by simp
  qed
qed

lemma map_of_obj_set:
  "k \<noteq> ''__proto__'' \<Longrightarrow>
   map_of (obj_set k' v obj) k = (if k' = k then Some v else map_of obj k)"
  by (auto simp: obj_set_def update_conv')

lemma map_of_fold_obj_set:
  "k \<noteq> ''__proto__'' \<Longrightarrow>
   map_of (fold (\<lambda>(key, v) fs. obj_set key (c key v) fs) qs acc) k =
     (if getAll k qs = [] then map_of acc k else Some (c k (last (getAll k qs))))"
proof (induction qs arbitrary: acc)
  case Nil
  then show ?case by simp
next
  case (Cons q qs)
  obtain k' v where q: "q = (k', v)" by (cases q)
  show ?case
    using Cons.prems by (simp add: q Cons.IH map_of_obj_set getAll_Cons)
qed

lemma map_of_fromURLParams:
  "k \<noteq> ''__proto__'' \<Longrightarrow>
   map_of (fromURLParams ps) k =
     (if getAll k ps = [] then None else Some (coerce ps k (last (getAll k ps))))"
  by (simp add: fromURLParams_def map_of_fold_obj_set)

lemma JSON_parse_object:
  assumes "startsWith s ''{''" and "JSON_parse s = Some v"
  shows "\<exists>kvs. v = JObj kvs"
proof -
  from assms(1) obtain t where s: "s = CHR ''{'' # t"
    by (cases s) (auto simp: startsWith_def)
  have ws: "skip_ws s = s"
    by (simp add: s skip_ws_def is_json_ws_def)
  have fuel: "2 * length s + 2 = Suc (2 * length s + 1)"
    by simp
  from assms(2) show ?thesis
    unfolding JSON_parse_def ws fuel
    by (auto simp: s startsWith_def split: option.splits if_splits)
qed

lemma scalar_of_not_array:
  assumes "\<not> startsWith s ''[''"
  shows "scalar_of s \<noteq> JArr xs"
proof (cases "startsWith s ''{''")
  case True
  then show ?thesis
    using JSON_parse_object [OF True]
    by (auto simp: scalar_of_def split: option.splits)
next
  case False
  with assms show ?thesis
    by (simp add: scalar_of_def)
qed

lemma scalar_of_plain:
  "\<not> startsWith s ''{'' \<Longrightarrow> \<not> startsWith s ''['' \<Longrightarrow> s \<noteq> ''true'' \<Longrightarrow> s \<noteq> ''false'' \<Longrightarrow>
   isNaN (Number s) \<Longrightarrow> scalar_of s = JStr s"
  by (simp add: scalar_of_def)

text \<open>
  C10, amended. Take a filter object with distinct property names that converts to URL
  parameters. A field that holds the one-element array \<open>[s]\<close> of a string comes back
  as what a name that occurs once is read as: the parsed JSON when \<open>s\<close> starts with a
  brace or a bracket and parses, \<open>true\<close> or \<open>false\<close> for these two words, the number
  when \<open>Number(s)\<close> is not \<open>NaN\<close>, and the string \<open>s\<close> otherwise; unless \<open>s\<close> starts with a
  bracket it never comes back as an array. A field that holds an array of two or more
  strings comes back as the same array.
\<close>

theorem url_roundtrip_arrays:
  assumes "distinct (map fst fs)" and "toURLParams fs = Some ps" and "k \<noteq> ''__proto__''"
  shows "((k, JArr [JStr s]) \<in> set fs \<longrightarrow>
            map_of (fromURLParams ps) k = Some (scalar_of s)
            \<and> (\<not> startsWith s ''['' \<longrightarrow> (\<forall>xs. map_of (fromURLParams ps) k \<noteq> Some (JArr xs))))
       \<and> ((k, JArr (map JStr ss)) \<in> set fs \<and> 2 \<le> length ss \<longrightarrow>
            map_of (fromURLParams ps) k = Some (JArr (map JStr ss)))"
proof (intro conjI impI)
  assume "(k, JArr [JStr s]) \<in> set fs"
  from getAll_entries_array [OF assms(1) this] assms(2) have "getAll k ps = [s]"
    by (simp add: toURLParams_def)
  then show r: "map_of (fromURLParams ps) k = Some (scalar_of s)"
    using assms(3) by (simp add: map_of_fromURLParams coerce_def)
  assume "\<not> startsWith s ''[''"
  then show "\<forall>xs. map_of (fromURLParams ps) k \<noteq> Some (JArr xs)"
    by (simp add: r scalar_of_not_array)
next
  assume a: "(k, JArr (map JStr ss)) \<in> set fs \<and> 2 \<le> length ss"
  from getAll_entries_array [OF assms(1) conjunct1 [OF a]] assms(2) have "getAll k ps = ss"
    by (simp add: toURLParams_def comp_def)
  then show "map_of (fromURLParams ps) k = Some (JArr (map JStr ss))"
    using assms(3) a by (auto simp: map_of_fromURLParams coerce_def)
qed

text \<open>
  The theorem at an object with one service type and two languages: the service type
  comes back as a string, the languages as the array they were.
\<close>

theorem url_roundtrip_arrays_witness:
  "map_of (fromURLParams [(''service_types'', ''detox''), (''languages'', ''en''),
                          (''languages'', ''es'')]) ''service_types'' = Some (JStr ''detox'')
   \<and> map_of (fromURLParams [(''service_types'', ''detox''), (''languages'', ''en''),
                            (''languages'', ''es'')]) ''languages''
       = Some (JArr [JStr ''en'', JStr ''es''])"
proof -
  let ?fs = "[(''service_types'', JArr [JStr ''detox'']),
              (''languages'', JArr (map JStr [''en'', ''es'']))]"
  let ?ps = "[(''service_types'', ''detox''), (''languages'', ''en''), (''languages'', ''es'')]"
  have d: "distinct (map fst ?fs)"
    by simp
  have t: "toURLParams ?fs = Some ?ps"
    by code_simp
  have s: "scalar_of ''detox'' = JStr ''detox''"
    by code_simp
  have m1: "(''service_types'', JArr [JStr ''detox'']) \<in> set ?fs"
    and m2: "(''languages'', JArr (map JStr [''en'', ''es''])) \<in> set ?fs
             \<and> 2 \<le> length [''en'', ''es'']"
    by simp_all
  have n1: "''service_types'' \<noteq> ''__proto__''" and n2: "''languages'' \<noteq> ''__proto__''"
    by simp_all
  from url_roundtrip_arrays [OF d t n1, of "''detox''"] m1 s
  have 1: "map_of (fromURLParams ?ps) ''service_types'' = Some (JStr ''detox'')"
    by simp
  from url_roundtrip_arrays [OF d t n2, of _ "[''en'', ''es'']"] m2
  have 2: "map_of (fromURLParams ?ps) ''languages'' = Some (JArr (map JStr [''en'', ''es'']))"
    by blast
  from 1 2 show ?thesis
    by simp
qed

text \<open>
  The claim as stated says that the single element comes back as a scalar string. The
  service type \<open>988\<close> comes back as the number 988.
\<close>

theorem url_roundtrip_number_counterexample:
  "toURLParams [(''service_types'', JArr [JStr ''988''])] = Some [(''service_types'', ''988'')]
   \<and> map_of (fromURLParams [(''service_types'', ''988'')]) ''service_types''
       = Some (JNum (Dec 988 0))"
  by code_simp

text \<open>
  A single element that is the text of a JSON array comes back as an array, parsed from
  it.
\<close>

lemma url_roundtrip_json_text:
  "toURLParams [(''service_types'', JArr [JStr ''[\"detox\"]''])]
     = Some [(''service_types'', ''[\"detox\"]'')]
   \<and> map_of (fromURLParams [(''service_types'', ''[\"detox\"]'')]) ''service_types''
       = Some (JArr [JStr ''detox''])"
  by code_simp

end
